theory Spec2Isabelle
  imports Main "HOL-Library.Sublist"
begin

section \<open>Values of the host runtime\<close>

text \<open>
  \<^verbatim>\<open>resolve_refish\<close> receives an R value (\<^verbatim>\<open>SEXP\<close>). Only the vector kinds that matter
  for its guard are modelled. An element of a character vector is a \<^verbatim>\<open>CHARSXP\<close>; the
  missing string \<^verbatim>\<open>NA_STRING\<close> is a \<^verbatim>\<open>CHARSXP\<close> whose text is \<^verbatim>\<open>"NA"\<close>.
\<close>

datatype charsxp = NA_STRING | CHARSXP string

datatype sexp =
    NILSXP
  | LGLSXP "bool list"
  | INTSXP "int list"
  | STRSXP "charsxp list"

fun Rf_isString :: "sexp \<Rightarrow> bool" where
  "Rf_isString (STRSXP xs) = True"
| "Rf_isString _ = False"

fun Rf_length :: "sexp \<Rightarrow> nat" where
  "Rf_length NILSXP = 0"
| "Rf_length (LGLSXP xs) = length xs"
| "Rf_length (INTSXP xs) = length xs"
| "Rf_length (STRSXP xs) = length xs"

text \<open>
  \<^verbatim>\<open>STRING_ELT(x, i)\<close> is only called behind the guard of \<^verbatim>\<open>resolve_refish\<close>, on a
  character vector with \<open>i\<close> in range; outside that it is an R error, here \<open>None\<close>.
\<close>

fun STRING_ELT :: "sexp \<Rightarrow> nat \<Rightarrow> charsxp option" where
  "STRING_ELT (STRSXP xs) i = (if i < length xs then Some (xs ! i) else None)"
| "STRING_ELT _ i = None"

text \<open>\<^verbatim>\<open>CHAR(x)\<close>: the text of a \<^verbatim>\<open>CHARSXP\<close> (named \<open>R_CHAR\<close>, as \<open>CHAR\<close> is taken in HOL).\<close>

fun R_CHAR :: "charsxp \<Rightarrow> string" where
  "R_CHAR NA_STRING = ''NA''"
| "R_CHAR (CHARSXP s) = s"

section \<open>Handles of the version-control library\<close>

text \<open>
  The library hands out handles to loaded objects. Of an object handle the code reads the
  kind (\<^verbatim>\<open>git_object_type\<close>) and the identifier (\<^verbatim>\<open>git_object_id\<close>); a reference
  handle is only passed back to the library; of a commit handle the callers read the
  identifier.
\<close>

text \<open>Modelled from the spec: the handle types, which \<^verbatim>\<open>utils.c\<close> takes from the
  library's headers. An identifier is a hash, written in hexadecimal; an object has exactly
  one of the four kinds; a reference points to an identifier or to another reference
  (section 3); a tag holds its target, a commit its root tree and its parents (sections
  4.3 and 4.4).\<close>

type_synonym git_oid = string

datatype git_object_t =
    GIT_OBJECT_COMMIT
  | GIT_OBJECT_TREE
  | GIT_OBJECT_BLOB
  | GIT_OBJECT_TAG

datatype odb_object =
    Commit_data git_oid "git_oid list"
  | Tree_data
  | Blob_data
  | Tag_data git_oid

fun kind_of :: "odb_object \<Rightarrow> git_object_t" where
  "kind_of (Commit_data t ps) = GIT_OBJECT_COMMIT"
| "kind_of Tree_data = GIT_OBJECT_TREE"
| "kind_of Blob_data = GIT_OBJECT_BLOB"
| "kind_of (Tag_data t) = GIT_OBJECT_TAG"

datatype git_object = Object (git_object_id: git_oid) (git_object_data: odb_object)

definition git_object_type :: "git_object \<Rightarrow> git_object_t" where
  "git_object_type obj = kind_of (git_object_data obj)"

datatype ref_target = Direct git_oid | Symbolic string

datatype git_reference = Reference (git_reference_name: string) (git_reference_target: ref_target)

datatype git_commit =
  Commit (git_commit_id: git_oid) (git_commit_tree_id: git_oid) (git_commit_parents: "git_oid list")

text \<open>Modelled from the spec: the library's table of kind names, used in the message of
  \<^verbatim>\<open>resolve_refish\<close>; the names are those of the four kinds of section 3, in lower case
  as in the suffix \<^verbatim>\<open>^{tree}\<close>.\<close>

fun git_object_type2string :: "git_object_t \<Rightarrow> string" where
  "git_object_type2string GIT_OBJECT_COMMIT = ''commit''"
| "git_object_type2string GIT_OBJECT_TREE = ''tree''"
| "git_object_type2string GIT_OBJECT_BLOB = ''blob''"
| "git_object_type2string GIT_OBJECT_TAG = ''tag''"

text \<open>
  The library functions that \<^verbatim>\<open>utils.c\<close> calls are external: they are parameters of the
  model. Each takes the repository state \<open>'s\<close> behind \<^verbatim>\<open>git_repository *repo\<close> and gives
  it back with its result, so that nothing about their effect on the repository is built
  in. A result \<open>Inl e\<close> is a return code other than \<^verbatim>\<open>GIT_OK\<close> (with the library's
  last-error record); \<open>Inr x\<close> is \<^verbatim>\<open>GIT_OK\<close> with the out-parameter set to \<open>x\<close>.
\<close>

record ('e, 's) libgit2 =
  git_reference_dwim :: "'s \<Rightarrow> string \<Rightarrow> ('e + git_reference) \<times> 's"
  git_reference_peel :: "'s \<Rightarrow> git_reference \<Rightarrow> git_object_t \<Rightarrow> ('e + git_object) \<times> 's"
  git_revparse_single :: "'s \<Rightarrow> string \<Rightarrow> ('e + git_object) \<times> 's"
  git_object_peel :: "'s \<Rightarrow> git_object \<Rightarrow> git_object_t \<Rightarrow> ('e + git_object) \<times> 's"
  git_commit_lookup :: "'s \<Rightarrow> git_oid \<Rightarrow> ('e + git_commit) \<times> 's"

section \<open>Errors raised into the host runtime\<close>

text \<open>
  \<^verbatim>\<open>Rf_error(fmt, ...)\<close> raises an R error with the formatted message (modelled without
  the runtime's limit on the message length). \<^verbatim>\<open>bail_if(err, what)\<close> raises the
  package's \<^verbatim>\<open>raise_libgit2_error\<close> condition from the library's error and the name of
  the failing call, and does nothing when \<open>err\<close> is \<^verbatim>\<open>GIT_OK\<close>.
\<close>

datatype 'e r_condition =
    Rf_error string
  | raise_libgit2_error 'e string

fun bail_if :: "'e + 'a \<Rightarrow> string \<Rightarrow> 'e r_condition + 'a" where
  "bail_if (Inl err) what = Inl (raise_libgit2_error err what)"
| "bail_if (Inr x) what = Inr x"

section \<open>Resolving a reference-like string\<close>

text \<open>
  \<^verbatim>\<open>resolve_refish\<close> (utils.c, lines 34 to 60). The two \<^verbatim>\<open>*_free\<close> calls release handles
  and do not touch the repository; they have no counterpart here.
\<close>

definition resolve_refish ::
  "('e, 's) libgit2 \<Rightarrow> sexp \<Rightarrow> 's \<Rightarrow> ('e r_condition + git_object) \<times> 's" where
  "resolve_refish L string repo =
    (if \<not> Rf_isString string \<or> Rf_length string = 0
     then (Inl (Rf_error ''Reference is not a string''), repo)
     else
       (case STRING_ELT string 0 of
          None \<Rightarrow> (Inl (Rf_error ''Reference is not a string''), repo)
        | Some elt \<Rightarrow>
            let str = R_CHAR elt;
                (fast, repo1) =
                  (case git_reference_dwim L repo str of
                     (Inr ref, r) \<Rightarrow>
                       (case git_reference_peel L r ref GIT_OBJECT_COMMIT of
                          (Inr obj, r') \<Rightarrow> (Some obj, r')
                        | (Inl e, r') \<Rightarrow> (None, r'))
                   | (Inl e, r) \<Rightarrow> (None, r))
            in
              (case fast of
                 Some obj \<Rightarrow> (Inr obj, repo1)
               | None \<Rightarrow>
                   (case git_revparse_single L repo1 str of
                      (Inr obj, repo2) \<Rightarrow>
                        if git_object_type obj = GIT_OBJECT_COMMIT then (Inr obj, repo2)
                        else
                          (case git_object_peel L repo2 obj GIT_OBJECT_COMMIT of
                             (Inr peeled, repo3) \<Rightarrow> (Inr peeled, repo3)
                           | (Inl e, repo3) \<Rightarrow>
                               (Inl (Rf_error (''Reference is a ''
                                   @ git_object_type2string (git_object_type obj)
                                   @ '' and does not point to a commit: '' @ str)), repo3))
                    | (Inl e, repo2) \<Rightarrow>
                        (Inl (Rf_error (''Failed to find git reference '' @ [CHR 0x27]
                            @ str @ [CHR 0x27])), repo2)))))"

text \<open>\<^verbatim>\<open>ref_to_commit\<close> (utils.c, lines 62 to 68).\<close>

definition ref_to_commit ::
  "('e, 's) libgit2 \<Rightarrow> sexp \<Rightarrow> 's \<Rightarrow> ('e r_condition + git_commit) \<times> 's" where
  "ref_to_commit L ref repo =
    (case resolve_refish L ref repo of
       (Inl cond, repo1) \<Rightarrow> (Inl cond, repo1)
     | (Inr revision, repo1) \<Rightarrow>
         (case git_commit_lookup L repo1 (git_object_id revision) of
            (res, repo2) \<Rightarrow> (bail_if res ''git_commit_lookup'', repo2)))"

text \<open>
  The outcome of lines 40 to 45 when they do not return: the name lookup failed, or it
  found a reference that did not peel to a commit. \<open>repo1\<close> is the repository as the
  failed attempt leaves it, from which line 46 goes on.
\<close>

definition fast_path_fails :: "('e, 's) libgit2 \<Rightarrow> 's \<Rightarrow> string \<Rightarrow> 's \<Rightarrow> bool" where
  "fast_path_fails L repo str repo1 =
    (case git_reference_dwim L repo str of
       (Inl e, r) \<Rightarrow> r = repo1
     | (Inr ref, r) \<Rightarrow>
         (case git_reference_peel L r ref GIT_OBJECT_COMMIT of
            (Inl e, r') \<Rightarrow> r' = repo1
          | (Inr obj, r') \<Rightarrow> False))"

section \<open>The library's operations, after the specification\<close>

text \<open>
  The library itself is not part of \<^verbatim>\<open>utils.c\<close>. The definitions of this section follow
  the specification's description of the operations the code calls (the Reference
  Resolver, the Revision Expression Parser, the Peeling Engine and the Object Store
  Accessor), over a repository made of an object store and a reference table. They give the
  parameters of \<open>resolve_refish\<close> one concrete value.
\<close>

text \<open>Modelled from the spec: the repository state, an object store keyed by identifier and
  a table of named references (sections 2 and 3).\<close>

record git_repository =
  odb :: "(git_oid \<times> odb_object) list"
  refdb :: "(string \<times> ref_target) list"

text \<open>Modelled from the spec: the error kinds of section 7; \<open>PeelError\<close> carries the kind
  it started from and the kind asked for (section 4.3).\<close>

datatype resolution_error =
    ParseError
  | NotFound
  | AmbiguousPrefix
  | NotAncestor
  | WrongKind
  | PeelError git_object_t git_object_t

text \<open>Modelled from the spec: the Object Store Accessor's \<^verbatim>\<open>lookup(id)\<close> (section 6), which
  is the external object database.\<close>

definition lookup :: "git_repository \<Rightarrow> git_oid \<Rightarrow> resolution_error + git_object" where
  "lookup repo oid =
    (case map_of (odb repo) oid of
       None \<Rightarrow> Inl NotFound
     | Some d \<Rightarrow> Inr (Object oid d))"

text \<open>Modelled from the spec: the Object Store Accessor's \<^verbatim>\<open>lookup_prefix(hexPrefix)\<close>
  (section 6), which is the external object database: more than one identifier with the
  prefix is \<open>AmbiguousPrefix\<close>.\<close>

definition lookup_prefix :: "git_repository \<Rightarrow> string \<Rightarrow> resolution_error + git_object" where
  "lookup_prefix repo hex =
    (case filter (prefix hex) (remdups (map fst (odb repo))) of
       [] \<Rightarrow> Inl NotFound
     | [oid] \<Rightarrow> lookup repo oid
     | _ \<Rightarrow> Inl AmbiguousPrefix)"

text \<open>Modelled from the spec: the Peeling Engine \<^verbatim>\<open>peel(obj, target)\<close> (section 4.3), which
  is the library's \<^verbatim>\<open>git_object_peel\<close>. The first argument is the maximum depth of a tag
  chain, which the specification leaves open.\<close>

fun peel :: "nat \<Rightarrow> git_repository \<Rightarrow> git_object \<Rightarrow> git_object_t \<Rightarrow> resolution_error + git_object" where
  "peel depth repo obj target =
    (if git_object_type obj = target then Inr obj
     else
       (case git_object_data obj of
          Tag_data t \<Rightarrow>
            (case depth of
               0 \<Rightarrow> Inl (PeelError GIT_OBJECT_TAG target)
             | Suc d \<Rightarrow>
                 (case lookup repo t of
                    Inl e \<Rightarrow> Inl e
                  | Inr obj' \<Rightarrow> peel d repo obj' target))
        | Commit_data tree ps \<Rightarrow>
            if target = GIT_OBJECT_TREE then lookup repo tree
            else Inl (PeelError GIT_OBJECT_COMMIT target)
        | _ \<Rightarrow> Inl (PeelError (git_object_type obj) target)))"

declare peel.simps [simp del]

text \<open>Modelled from the spec: the Reference Resolver \<^verbatim>\<open>resolve_name(name)\<close> (section 4.1),
  which is the library's \<^verbatim>\<open>git_reference_dwim\<close>: the namespaces in their fixed priority
  order (local branches, remote-tracking branches, tags), then the table of special
  tokens.\<close>

definition namespaces :: "string list" where
  "namespaces = [''refs/heads/'', ''refs/remotes/'', ''refs/tags/'']"

definition special_tokens :: "string list" where
  "special_tokens = [''HEAD'']"

fun first_match :: "(string \<times> ref_target) list \<Rightarrow> string list \<Rightarrow> git_reference option" where
  "first_match refs [] = None"
| "first_match refs (n # ns) =
    (case map_of refs n of
       Some t \<Rightarrow> Some (Reference n t)
     | None \<Rightarrow> first_match refs ns)"

definition resolve_name :: "git_repository \<Rightarrow> string \<Rightarrow> resolution_error + git_reference" where
  "resolve_name repo name =
    (case first_match (refdb repo) (map (\<lambda>ns. ns @ name) namespaces) of
       Some r \<Rightarrow> Inr r
     | None \<Rightarrow>
         if name \<in> set special_tokens then
           (case map_of (refdb repo) name of
              Some t \<Rightarrow> Inr (Reference name t)
            | None \<Rightarrow> Inl NotFound)
         else Inl NotFound)"

text \<open>Modelled from the spec: the dereference of a reference to its target identifier
  (section 6, the reference namespace), following symbolic references up to the depth
  bound.\<close>

fun reference_oid :: "nat \<Rightarrow> git_repository \<Rightarrow> ref_target \<Rightarrow> resolution_error + git_oid" where
  "reference_oid depth repo (Direct oid) = Inr oid"
| "reference_oid 0 repo (Symbolic n) = Inl NotFound"
| "reference_oid (Suc d) repo (Symbolic n) =
    (case map_of (refdb repo) n of
       None \<Rightarrow> Inl NotFound
     | Some t \<Rightarrow> reference_oid d repo t)"

text \<open>Modelled from the spec: peeling a resolved reference's target object (section 4.4,
  step 1), which is the library's \<^verbatim>\<open>git_reference_peel\<close>.\<close>

definition reference_peel ::
  "nat \<Rightarrow> git_repository \<Rightarrow> git_reference \<Rightarrow> git_object_t \<Rightarrow> resolution_error + git_object" where
  "reference_peel depth repo ref target =
    (case reference_oid depth repo (git_reference_target ref) of
       Inl e \<Rightarrow> Inl e
     | Inr oid \<Rightarrow>
         (case lookup repo oid of
            Inl e \<Rightarrow> Inl e
          | Inr obj \<Rightarrow> peel depth repo obj target))"

text \<open>Modelled from the spec: the Revision Expression Parser \<^verbatim>\<open>parse(expr)\<close> (section 4.2),
  which is the front half of the library's \<^verbatim>\<open>git_revparse_single\<close>. The base runs up to
  the first \<^verbatim>\<open>^\<close> or \<^verbatim>\<open>~\<close>; a suffix without digits counts once; \<^verbatim>\<open>^{kind}\<close> is accepted
  as the last token only; anything else is a \<open>ParseError\<close>, and so is the empty string.\<close>

datatype suffix_op = Parent nat | Generations nat | PeelTo git_object_t

definition is_digit :: "char \<Rightarrow> bool" where
  "is_digit c = (c \<in> set ''0123456789'')"

definition is_suffix_char :: "char \<Rightarrow> bool" where
  "is_suffix_char c = (c = CHR ''^'' \<or> c = CHR ''~'')"

definition digits_value :: "string \<Rightarrow> nat" where
  "digits_value ds = foldl (\<lambda>n c. 10 * n + (of_char c - 48)) 0 ds"

definition suffix_count :: "string \<Rightarrow> nat" where
  "suffix_count ds = (if ds = [] then 1 else digits_value ds)"

definition kind_of_name :: "string \<Rightarrow> git_object_t option" where
  "kind_of_name s =
    (if s = ''commit'' then Some GIT_OBJECT_COMMIT
     else if s = ''tree'' then Some GIT_OBJECT_TREE
     else if s = ''blob'' then Some GIT_OBJECT_BLOB
     else if s = ''tag'' then Some GIT_OBJECT_TAG
     else None)"

function parse_suffixes :: "string \<Rightarrow> resolution_error + suffix_op list" where
  "parse_suffixes [] = Inr []"
| "parse_suffixes (c # cs) =
    (if c = CHR ''^'' \<and> take 1 cs = ''{'' then
       (case kind_of_name (takeWhile (\<lambda>x. x \<noteq> CHR ''}'') (tl cs)) of
          None \<Rightarrow> Inl ParseError
        | Some k \<Rightarrow>
            if dropWhile (\<lambda>x. x \<noteq> CHR ''}'') (tl cs) = ''}'' then Inr [PeelTo k]
            else Inl ParseError)
     else if is_suffix_char c then
       (case parse_suffixes (dropWhile is_digit cs) of
          Inl e \<Rightarrow> Inl e
        | Inr ops \<Rightarrow>
            Inr ((if c = CHR ''^'' then Parent (suffix_count (takeWhile is_digit cs))
                  else Generations (suffix_count (takeWhile is_digit cs))) # ops))
     else Inl ParseError)"
  by pat_completeness auto
termination
  by (relation "measure length") (auto simp: less_Suc_eq_le length_dropWhile_le)

declare parse_suffixes.simps [simp del]

definition parse :: "string \<Rightarrow> resolution_error + (string \<times> suffix_op list)" where
  "parse expr =
    (if expr = [] then Inl ParseError
     else
       (case parse_suffixes (dropWhile (\<lambda>c. \<not> is_suffix_char c) expr) of
          Inl e \<Rightarrow> Inl e
        | Inr ops \<Rightarrow> Inr (takeWhile (\<lambda>c. \<not> is_suffix_char c) expr, ops)))"

text \<open>Modelled from the spec: the fallback of the Resolution Facade (section 4.4, step 2),
  which is the library's \<^verbatim>\<open>git_revparse_single\<close>: parse, look the base token up in the
  store (a special token through the reference table, anything else as an identifier
  prefix), then apply the suffix operators from left to right. An ancestry step starts
  from the commit its operand peels to.\<close>

definition nth_parent ::
  "nat \<Rightarrow> git_repository \<Rightarrow> git_object \<Rightarrow> nat \<Rightarrow> resolution_error + git_object" where
  "nth_parent depth repo obj n =
    (case peel depth repo obj GIT_OBJECT_COMMIT of
       Inl e \<Rightarrow> Inl WrongKind
     | Inr c \<Rightarrow>
         (case git_object_data c of
            Commit_data tree ps \<Rightarrow>
              if 0 < n \<and> n \<le> length ps then lookup repo (ps ! (n - 1))
              else Inl NotAncestor
          | _ \<Rightarrow> Inl WrongKind))"

fun generations ::
  "nat \<Rightarrow> git_repository \<Rightarrow> git_object \<Rightarrow> nat \<Rightarrow> resolution_error + git_object" where
  "generations depth repo obj 0 = Inr obj"
| "generations depth repo obj (Suc n) =
    (case nth_parent depth repo obj 1 of
       Inl e \<Rightarrow> Inl e
     | Inr p \<Rightarrow> generations depth repo p n)"

fun apply_op ::
  "nat \<Rightarrow> git_repository \<Rightarrow> git_object \<Rightarrow> suffix_op \<Rightarrow> resolution_error + git_object" where
  "apply_op depth repo obj (Parent n) = nth_parent depth repo obj n"
| "apply_op depth repo obj (Generations n) = generations depth repo obj n"
| "apply_op depth repo obj (PeelTo k) = peel depth repo obj k"

fun apply_ops ::
  "nat \<Rightarrow> git_repository \<Rightarrow> git_object \<Rightarrow> suffix_op list \<Rightarrow> resolution_error + git_object" where
  "apply_ops depth repo obj [] = Inr obj"
| "apply_ops depth repo obj (x # xs) =
    (case apply_op depth repo obj x of
       Inl e \<Rightarrow> Inl e
     | Inr obj' \<Rightarrow> apply_ops depth repo obj' xs)"

definition lookup_base :: "nat \<Rightarrow> git_repository \<Rightarrow> string \<Rightarrow> resolution_error + git_object" where
  "lookup_base depth repo base =
    (if base \<in> set special_tokens then
       (case resolve_name repo base of
          Inl e \<Rightarrow> Inl e
        | Inr ref \<Rightarrow>
            (case reference_oid depth repo (git_reference_target ref) of
               Inl e \<Rightarrow> Inl e
             | Inr oid \<Rightarrow> lookup repo oid))
     else lookup_prefix repo base)"

definition revparse :: "nat \<Rightarrow> git_repository \<Rightarrow> string \<Rightarrow> resolution_error + git_object" where
  "revparse depth repo expr =
    (case parse expr of
       Inl e \<Rightarrow> Inl e
     | Inr (base, ops) \<Rightarrow>
         (case lookup_base depth repo base of
            Inl e \<Rightarrow> Inl e
          | Inr obj \<Rightarrow> apply_ops depth repo obj ops))"

text \<open>Modelled from the spec: the Object Store Accessor's \<^verbatim>\<open>lookup(id)\<close> (section 6)
  restricted to commits, which is the library's \<^verbatim>\<open>git_commit_lookup\<close>.\<close>

definition commit_lookup :: "git_repository \<Rightarrow> git_oid \<Rightarrow> resolution_error + git_commit" where
  "commit_lookup repo oid =
    (case map_of (odb repo) oid of
       Some (Commit_data tree ps) \<Rightarrow> Inr (Commit oid tree ps)
     | _ \<Rightarrow> Inl NotFound)"

text \<open>The five operations as one value of the library interface. None of them changes the
  repository.\<close>

definition spec_libgit2 :: "nat \<Rightarrow> (resolution_error, git_repository) libgit2" where
  "spec_libgit2 depth =
    \<lparr> git_reference_dwim = (\<lambda>repo name. (resolve_name repo name, repo)),
      git_reference_peel = (\<lambda>repo ref target. (reference_peel depth repo ref target, repo)),
      git_revparse_single = (\<lambda>repo expr. (revparse depth repo expr, repo)),
      git_object_peel = (\<lambda>repo obj target. (peel depth repo obj target, repo)),
      git_commit_lookup = (\<lambda>repo oid. (commit_lookup repo oid, repo)) \<rparr>"

text \<open>
  A small repository: three commits in a line, their trees, a blob, a tag of a commit, a
  tag of that tag and a tag of the blob; a branch \<^verbatim>\<open>main\<close>, a branch whose name is
  literally \<^verbatim>\<open>c1c1~1\<close>, a symbolic \<^verbatim>\<open>HEAD\<close> and three tag references.
\<close>

definition example_repo :: git_repository where
  "example_repo =
    \<lparr> odb =
        [(''c0c0aa'', Commit_data ''7e00aa'' []),
         (''c1c1bb'', Commit_data ''7e11bb'' [''c0c0aa'']),
         (''abc1234f'', Commit_data ''7e22cc'' [''c1c1bb'']),
         (''7e00aa'', Tree_data),
         (''7e11bb'', Tree_data),
         (''7e22cc'', Tree_data),
         (''b10b01'', Blob_data),
         (''7a9001'', Tag_data ''c1c1bb''),
         (''7a9002'', Tag_data ''7a9001''),
         (''7a9003'', Tag_data ''b10b01'')],
      refdb =
        [(''refs/heads/main'', Direct ''abc1234f''),
         (''refs/heads/c1c1~1'', Direct ''abc1234f''),
         (''HEAD'', Symbolic ''refs/heads/main''),
         (''refs/tags/v1'', Direct ''7a9002''),
         (''refs/tags/data'', Direct ''7a9003''),
         (''refs/tags/root'', Direct ''7e00aa'')] \<rparr>"

section \<open>How \<open>resolve_refish\<close> goes through its paths\<close>

lemma resolve_refish_guard:
  "\<not> Rf_isString s \<or> Rf_length s = 0 \<Longrightarrow>
     resolve_refish L s repo = (Inl (Rf_error ''Reference is not a string''), repo)"
  by (simp add: resolve_refish_def)

lemma resolve_refish_by_name:
  "git_reference_dwim L repo (R_CHAR x) = (Inr ref, r1) \<Longrightarrow>
   git_reference_peel L r1 ref GIT_OBJECT_COMMIT = (Inr obj, r2) \<Longrightarrow>
   resolve_refish L (STRSXP (x # xs)) repo = (Inr obj, r2)"
  by (simp add: resolve_refish_def)

lemma resolve_refish_by_revparse:
  "fast_path_fails L repo (R_CHAR x) r1 \<Longrightarrow>
   resolve_refish L (STRSXP (x # xs)) repo =
                   (case git_revparse_single L r1 (R_CHAR x) of
                      (Inr obj, repo2) \<Rightarrow>
                        if git_object_type obj = GIT_OBJECT_COMMIT then (Inr obj, repo2)
                        else
                          (case git_object_peel L repo2 obj GIT_OBJECT_COMMIT of
                             (Inr peeled, repo3) \<Rightarrow> (Inr peeled, repo3)
                           | (Inl e, repo3) \<Rightarrow>
                               (Inl (Rf_error (''Reference is a ''
                                   @ git_object_type2string (git_object_type obj)
                                   @ '' and does not point to a commit: '' @ R_CHAR x)), repo3))
                    | (Inl e, repo2) \<Rightarrow>
                        (Inl (Rf_error (''Failed to find git reference '' @ [CHR 0x27]
                            @ R_CHAR x @ [CHR 0x27])), repo2))"
proof -
  assume fails: "fast_path_fails L repo (R_CHAR x) r1"
  obtain a r where dwim: "git_reference_dwim L repo (R_CHAR x) = (a, r)"
    by (cases "git_reference_dwim L repo (R_CHAR x)")
  show ?thesis
  proof (cases a)
    case (Inl e)
    with fails dwim have "r = r1"
      by (simp add: fast_path_fails_def)
    with Inl dwim show ?thesis
      by (simp add: resolve_refish_def Let_def)
  next
    case (Inr ref)
    obtain b r' where peel: "git_reference_peel L r ref GIT_OBJECT_COMMIT = (b, r')"
      by (cases "git_reference_peel L r ref GIT_OBJECT_COMMIT")
    with fails dwim Inr obtain e where "b = Inl e" and "r' = r1"
      by (cases b) (simp_all add: fast_path_fails_def)
    with Inr dwim peel show ?thesis
      by (simp add: resolve_refish_def Let_def)
  qed
qed

lemma STRING_ELT_behind_guard:
  "Rf_isString s \<Longrightarrow> Rf_length s \<noteq> 0 \<Longrightarrow> \<exists>elt. STRING_ELT s 0 = Some elt"
  by (cases s) simp_all

lemma fast_path_succeeds:
  assumes "\<not> (\<exists>repo1. fast_path_fails L repo str repo1)"
  shows "\<exists>ref r1 obj r2. git_reference_dwim L repo str = (Inr ref, r1) \<and>
           git_reference_peel L r1 ref GIT_OBJECT_COMMIT = (Inr obj, r2)"
proof -
  obtain a r1 where dwim: "git_reference_dwim L repo str = (a, r1)"
    by (cases "git_reference_dwim L repo str")
  with assms obtain ref where a: "a = Inr ref"
    by (cases a) (auto simp: fast_path_fails_def)
  obtain b r2 where peel: "git_reference_peel L r1 ref GIT_OBJECT_COMMIT = (b, r2)"
    by (cases "git_reference_peel L r1 ref GIT_OBJECT_COMMIT")
  with assms dwim a obtain obj where "b = Inr obj"
    by (cases b) (auto simp: fast_path_fails_def)
  with dwim a peel show ?thesis
    by simp
qed

lemma resolve_refish_success_paths:
  assumes ok: "resolve_refish L string repo = (Inr obj, repo')"
  shows "\<exists>elt. STRING_ELT string 0 = Some elt \<and>
           ((\<exists>ref r1. git_reference_dwim L repo (R_CHAR elt) = (Inr ref, r1) \<and>
                git_reference_peel L r1 ref GIT_OBJECT_COMMIT = (Inr obj, repo'))
            \<or> (\<exists>r1. fast_path_fails L repo (R_CHAR elt) r1 \<and>
                  (git_revparse_single L r1 (R_CHAR elt) = (Inr obj, repo') \<and>
                     git_object_type obj = GIT_OBJECT_COMMIT
                   \<or> (\<exists>found r2. git_revparse_single L r1 (R_CHAR elt) = (Inr found, r2) \<and>
                         git_object_type found \<noteq> GIT_OBJECT_COMMIT \<and>
                         git_object_peel L r2 found GIT_OBJECT_COMMIT = (Inr obj, repo')))))"
proof (cases "\<not> Rf_isString string \<or> Rf_length string = 0")
  case True
  with ok show ?thesis
    by (simp add: resolve_refish_guard)
next
  case False
  then obtain x xs where string: "string = STRSXP (x # xs)"
    by (cases string; cases "Rf_length string") (auto simp: length_Suc_conv)
  obtain a r where dwim: "git_reference_dwim L repo (R_CHAR x) = (a, r)"
    by (cases "git_reference_dwim L repo (R_CHAR x)")
  have fallback: ?thesis if fails: "fast_path_fails L repo (R_CHAR x) r1" for r1
  proof -
    obtain b r2 where rev: "git_revparse_single L r1 (R_CHAR x) = (b, r2)"
      by (cases "git_revparse_single L r1 (R_CHAR x)")
    show ?thesis
    proof (cases b)
      case (Inl e)
      with rev fails string ok show ?thesis
        by (simp add: resolve_refish_by_revparse [where ?r1.0 = r1])
    next
      case (Inr found)
      show ?thesis
      proof (cases "git_object_type found = GIT_OBJECT_COMMIT")
        case True
        with Inr rev fails string ok have "found = obj" "r2 = repo'"
          by (simp_all add: resolve_refish_by_revparse [where ?r1.0 = r1])
        with True Inr rev fails string show ?thesis
          by auto
      next
        case False
        obtain c r3 where op: "git_object_peel L r2 found GIT_OBJECT_COMMIT = (c, r3)"
          by (cases "git_object_peel L r2 found GIT_OBJECT_COMMIT")
        with False Inr rev fails string ok have "c = Inr obj" "r3 = repo'"
          by (cases c; simp add: resolve_refish_by_revparse [where ?r1.0 = r1])+
        with False Inr rev fails string op show ?thesis
          by auto
      qed
    qed
  qed
  show ?thesis
  proof (cases a)
    case (Inl e)
    with dwim have "fast_path_fails L repo (R_CHAR x) r"
      by (simp add: fast_path_fails_def)
    then show ?thesis
      by (rule fallback)
  next
    case (Inr ref)
    obtain b r1 where rp: "git_reference_peel L r ref GIT_OBJECT_COMMIT = (b, r1)"
      by (cases "git_reference_peel L r ref GIT_OBJECT_COMMIT")
    show ?thesis
    proof (cases b)
      case (Inl e)
      with Inr dwim rp have "fast_path_fails L repo (R_CHAR x) r1"
        by (simp add: fast_path_fails_def)
      then show ?thesis
        by (rule fallback)
    next
      case found: (Inr found)
      with Inr dwim rp string ok have "found = obj" "r1 = repo'"
        by (simp_all add: resolve_refish_by_name [where ref = ref and ?r1.0 = r])
      with found Inr dwim rp string show ?thesis
        by auto
    qed
  qed
qed

section \<open>The kind of a peeled object\<close>

lemma peel_same_kind:
  "git_object_type obj = target \<Longrightarrow> peel depth repo obj target = Inr obj"
  by (subst peel.simps) simp

lemma peel_kind:
  "peel depth repo obj target = Inr c \<Longrightarrow> target \<noteq> GIT_OBJECT_TREE \<Longrightarrow>
   git_object_type c = target"
proof (induction depth repo obj target rule: peel.induct)
  case (1 depth repo obj target)
  show ?case
  proof (cases "git_object_type obj = target")
    case True
    with "1.prems" show ?thesis
      by (simp add: peel_same_kind)
  next
    case False
    with "1.prems" "1.IH" show ?thesis
      by (subst (asm) peel.simps)
         (auto split: odb_object.splits nat.splits sum.splits if_splits)
  qed
qed

lemma reference_peel_kind:
  "reference_peel depth repo ref target = Inr c \<Longrightarrow> target \<noteq> GIT_OBJECT_TREE \<Longrightarrow>
   git_object_type c = target"
  by (auto simp: reference_peel_def peel_kind split: sum.splits)

section \<open>Properties\<close>

text \<open>
  C1. \<open>resolve_refish\<close> tries the expression as a literal name first, and falls back to
  revision parsing only if, and whenever, that attempt fails. When the name lookup finds a
  reference and that reference peels to a commit, the commit is returned whatever the
  revision parser and the object peel of the library would do: they are not consulted.
  The outcome can depend on them only when the name attempt failed. And when the name
  attempt fails, at the lookup or at the peel, the outcome is that of the revision parse
  of the same expression, from the repository as the failed attempt left it: the parsed
  object if it is a commit, else what it peels to, else one of the two errors. So a branch
  literally named with suffix characters is resolved as a name before any suffix is
  interpreted: in the witness, the branch \<^verbatim>\<open>c1c1~1\<close> wins over the first parent of commit
  \<^verbatim>\<open>c1c1bb\<close>, while \<^verbatim>\<open>HEAD~1\<close> and \<^verbatim>\<open>7a9002\<close>, which name no reference, go through the
  revision parse.
\<close>

theorem resolve_refish_name_first:
  "(git_reference_dwim L repo (R_CHAR x) = (Inr ref, repo1) \<and>
    git_reference_peel L repo1 ref GIT_OBJECT_COMMIT = (Inr obj, repo2) \<longrightarrow>
      (\<forall>f g. resolve_refish (L\<lparr>git_revparse_single := f, git_object_peel := g\<rparr>)
                (STRSXP (x # xs)) repo = (Inr obj, repo2)))
   \<and> ((\<exists>f g. resolve_refish (L\<lparr>git_revparse_single := f, git_object_peel := g\<rparr>)
                (STRSXP (x # xs)) repo \<noteq> resolve_refish L (STRSXP (x # xs)) repo) \<longrightarrow>
        (\<exists>r. fast_path_fails L repo (R_CHAR x) r))
   \<and> (fast_path_fails L repo (R_CHAR x) r1 \<longrightarrow>
        resolve_refish L (STRSXP (x # xs)) repo =
          (case git_revparse_single L r1 (R_CHAR x) of
             (Inr found, r2) \<Rightarrow>
               if git_object_type found = GIT_OBJECT_COMMIT then (Inr found, r2)
               else
                 (case git_object_peel L r2 found GIT_OBJECT_COMMIT of
                    (Inr peeled, r3) \<Rightarrow> (Inr peeled, r3)
                  | (Inl e, r3) \<Rightarrow>
                      (Inl (Rf_error (''Reference is a ''
                          @ git_object_type2string (git_object_type found)
                          @ '' and does not point to a commit: '' @ R_CHAR x)), r3))
           | (Inl e, r2) \<Rightarrow>
               (Inl (Rf_error (''Failed to find git reference '' @ [CHR 0x27]
                   @ R_CHAR x @ [CHR 0x27])), r2)))"
proof (intro conjI impI allI)
  fix f g
  assume "git_reference_dwim L repo (R_CHAR x) = (Inr ref, repo1) \<and>
    git_reference_peel L repo1 ref GIT_OBJECT_COMMIT = (Inr obj, repo2)"
  then show "resolve_refish (L\<lparr>git_revparse_single := f, git_object_peel := g\<rparr>)
                (STRSXP (x # xs)) repo = (Inr obj, repo2)"
    by (intro resolve_refish_by_name [where ref = ref and ?r1.0 = repo1]) simp_all
next
  assume differs: "\<exists>f g. resolve_refish (L\<lparr>git_revparse_single := f, git_object_peel := g\<rparr>)
                (STRSXP (x # xs)) repo \<noteq> resolve_refish L (STRSXP (x # xs)) repo"
  show "\<exists>r. fast_path_fails L repo (R_CHAR x) r"
  proof (rule ccontr)
    assume "\<not> (\<exists>r. fast_path_fails L repo (R_CHAR x) r)"
    from fast_path_succeeds [OF this] obtain ref' r1 obj' r2
      where dwim: "git_reference_dwim L repo (R_CHAR x) = (Inr ref', r1)"
        and peel: "git_reference_peel L r1 ref' GIT_OBJECT_COMMIT = (Inr obj', r2)"
      by auto
    have "resolve_refish L (STRSXP (x # xs)) repo = (Inr obj', r2)"
      using dwim peel by (rule resolve_refish_by_name)
    moreover have "resolve_refish (L\<lparr>git_revparse_single := f, git_object_peel := g\<rparr>)
                (STRSXP (x # xs)) repo = (Inr obj', r2)" for f g
      using dwim peel
      by (intro resolve_refish_by_name [where ref = ref' and ?r1.0 = r1]) simp_all
    ultimately show False
      using differs by simp
  qed
next
  assume "fast_path_fails L repo (R_CHAR x) r1"
  then show "resolve_refish L (STRSXP (x # xs)) repo =
          (case git_revparse_single L r1 (R_CHAR x) of
             (Inr found, r2) \<Rightarrow>
               if git_object_type found = GIT_OBJECT_COMMIT then (Inr found, r2)
               else
                 (case git_object_peel L r2 found GIT_OBJECT_COMMIT of
                    (Inr peeled, r3) \<Rightarrow> (Inr peeled, r3)
                  | (Inl e, r3) \<Rightarrow>
                      (Inl (Rf_error (''Reference is a ''
                          @ git_object_type2string (git_object_type found)
                          @ '' and does not point to a commit: '' @ R_CHAR x)), r3))
           | (Inl e, r2) \<Rightarrow>
               (Inl (Rf_error (''Failed to find git reference '' @ [CHR 0x27]
                   @ R_CHAR x @ [CHR 0x27])), r2))"
    by (rule resolve_refish_by_revparse)
qed

theorem resolve_refish_name_first_witness:
  "git_reference_dwim (spec_libgit2 8) example_repo ''c1c1~1''
     = (Inr (Reference ''refs/heads/c1c1~1'' (Direct ''abc1234f'')), example_repo)
   \<and> revparse 8 example_repo ''c1c1~1'' = Inr (Object ''c0c0aa'' (Commit_data ''7e00aa'' []))
   \<and> resolve_refish (spec_libgit2 8) (STRSXP [CHARSXP ''c1c1~1'']) example_repo
     = (Inr (Object ''abc1234f'' (Commit_data ''7e22cc'' [''c1c1bb''])), example_repo)
   \<and> fast_path_fails (spec_libgit2 8) example_repo ''HEAD~1'' example_repo
   \<and> git_revparse_single (spec_libgit2 8) example_repo ''HEAD~1''
     = (Inr (Object ''c1c1bb'' (Commit_data ''7e11bb'' [''c0c0aa''])), example_repo)
   \<and> resolve_refish (spec_libgit2 8) (STRSXP [CHARSXP ''HEAD~1'']) example_repo
     = (Inr (Object ''c1c1bb'' (Commit_data ''7e11bb'' [''c0c0aa''])), example_repo)
   \<and> fast_path_fails (spec_libgit2 8) example_repo ''7a9002'' example_repo
   \<and> git_revparse_single (spec_libgit2 8) example_repo ''7a9002''
     = (Inr (Object ''7a9002'' (Tag_data ''7a9001'')), example_repo)
   \<and> resolve_refish (spec_libgit2 8) (STRSXP [CHARSXP ''7a9002'']) example_repo
     = (Inr (Object ''c1c1bb'' (Commit_data ''7e11bb'' [''c0c0aa''])), example_repo)"
proof -
  have dwim: "git_reference_dwim (spec_libgit2 8) example_repo (R_CHAR (CHARSXP ''c1c1~1''))
     = (Inr (Reference ''refs/heads/c1c1~1'' (Direct ''abc1234f'')), example_repo)"
    by code_simp
  have peel: "git_reference_peel (spec_libgit2 8) example_repo
       (Reference ''refs/heads/c1c1~1'' (Direct ''abc1234f'')) GIT_OBJECT_COMMIT
     = (Inr (Object ''abc1234f'' (Commit_data ''7e22cc'' [''c1c1bb''])), example_repo)"
    by code_simp
  have other: "revparse 8 example_repo ''c1c1~1'' = Inr (Object ''c0c0aa'' (Commit_data ''7e00aa'' []))"
    by code_simp
  have same: "(spec_libgit2 8)\<lparr>git_revparse_single := git_revparse_single (spec_libgit2 8),
                git_object_peel := git_object_peel (spec_libgit2 8)\<rparr> = spec_libgit2 8"
    by simp
  from resolve_refish_name_first
         [where L = "spec_libgit2 8" and repo = example_repo and x = "CHARSXP ''c1c1~1''"
            and ref = "Reference ''refs/heads/c1c1~1'' (Direct ''abc1234f'')"
            and ?repo1.0 = example_repo and ?repo2.0 = example_repo and xs = "[]"
            and obj = "Object ''abc1234f'' (Commit_data ''7e22cc'' [''c1c1bb''])"]
       dwim peel
  have "resolve_refish ((spec_libgit2 8)\<lparr>git_revparse_single := git_revparse_single (spec_libgit2 8),
                git_object_peel := git_object_peel (spec_libgit2 8)\<rparr>)
          (STRSXP [CHARSXP ''c1c1~1'']) example_repo
     = (Inr (Object ''abc1234f'' (Commit_data ''7e22cc'' [''c1c1bb''])), example_repo)"
    by blast
  with same have by_name: "resolve_refish (spec_libgit2 8) (STRSXP [CHARSXP ''c1c1~1'']) example_repo
     = (Inr (Object ''abc1234f'' (Commit_data ''7e22cc'' [''c1c1bb''])), example_repo)"
    by simp
  have fails1: "fast_path_fails (spec_libgit2 8) example_repo (R_CHAR (CHARSXP ''HEAD~1'')) example_repo"
    by code_simp
  have rev1: "git_revparse_single (spec_libgit2 8) example_repo ''HEAD~1''
     = (Inr (Object ''c1c1bb'' (Commit_data ''7e11bb'' [''c0c0aa''])), example_repo)"
    by code_simp
  from resolve_refish_name_first
         [where L = "spec_libgit2 8" and repo = example_repo and x = "CHARSXP ''HEAD~1''"
            and ?r1.0 = example_repo and xs = "[]"]
       fails1 rev1
  have fallback1: "resolve_refish (spec_libgit2 8) (STRSXP [CHARSXP ''HEAD~1'']) example_repo
     = (Inr (Object ''c1c1bb'' (Commit_data ''7e11bb'' [''c0c0aa''])), example_repo)"
    by (simp add: git_object_type_def)
  have fails2: "fast_path_fails (spec_libgit2 8) example_repo (R_CHAR (CHARSXP ''7a9002'')) example_repo"
    by code_simp
  have rev2: "git_revparse_single (spec_libgit2 8) example_repo ''7a9002''
     = (Inr (Object ''7a9002'' (Tag_data ''7a9001'')), example_repo)"
    by code_simp
  have peel2: "git_object_peel (spec_libgit2 8) example_repo (Object ''7a9002'' (Tag_data ''7a9001''))
       GIT_OBJECT_COMMIT
     = (Inr (Object ''c1c1bb'' (Commit_data ''7e11bb'' [''c0c0aa''])), example_repo)"
    by code_simp
  from resolve_refish_name_first
         [where L = "spec_libgit2 8" and repo = example_repo and x = "CHARSXP ''7a9002''"
            and ?r1.0 = example_repo and xs = "[]"]
       fails2 rev2 peel2
  have fallback2: "resolve_refish (spec_libgit2 8) (STRSXP [CHARSXP ''7a9002'']) example_repo
     = (Inr (Object ''c1c1bb'' (Commit_data ''7e11bb'' [''c0c0aa''])), example_repo)"
    by (simp add: git_object_type_def)
  from dwim other by_name fails1 rev1 fallback1 fails2 rev2 fallback2 show ?thesis
    by simp
qed

text \<open>
  C2. When the name attempt fails and the revision parse yields an object that is not a
  commit and does not peel to one, \<open>resolve_refish\<close> returns no object: it raises an error
  whose message names the kind of the object found and the expression.
\<close>

theorem resolve_refish_wrong_kind:
  assumes "fast_path_fails L repo str repo1"
      and "git_revparse_single L repo1 str = (Inr obj, repo2)"
      and "git_object_type obj \<noteq> GIT_OBJECT_COMMIT"
      and "git_object_peel L repo2 obj GIT_OBJECT_COMMIT = (Inl e, repo3)"
  shows "resolve_refish L (STRSXP (CHARSXP str # xs)) repo =
           (Inl (Rf_error (''Reference is a '' @ git_object_type2string (git_object_type obj)
              @ '' and does not point to a commit: '' @ str)), repo3)"
  using assms by (simp add: resolve_refish_by_revparse [where ?r1.0 = repo1])

theorem resolve_refish_wrong_kind_witness:
  "resolve_refish (spec_libgit2 8) (STRSXP [CHARSXP ''7a9003'']) example_repo =
     (Inl (Rf_error ''Reference is a tag and does not point to a commit: 7a9003''), example_repo)"
proof -
  have a: "fast_path_fails (spec_libgit2 8) example_repo ''7a9003'' example_repo"
    by code_simp
  have b: "git_revparse_single (spec_libgit2 8) example_repo ''7a9003''
             = (Inr (Object ''7a9003'' (Tag_data ''b10b01'')), example_repo)"
    by code_simp
  have c: "git_object_type (Object ''7a9003'' (Tag_data ''b10b01'')) \<noteq> GIT_OBJECT_COMMIT"
    by code_simp
  have d: "git_object_peel (spec_libgit2 8) example_repo (Object ''7a9003'' (Tag_data ''b10b01''))
             GIT_OBJECT_COMMIT = (Inl (PeelError GIT_OBJECT_BLOB GIT_OBJECT_COMMIT), example_repo)"
    by code_simp
  from resolve_refish_wrong_kind [OF a b c d, of "[]"] show ?thesis
    by (simp add: git_object_type_def)
qed

text \<open>
  C3. When both the name attempt and the revision parse fail, \<open>resolve_refish\<close> returns no
  object: it raises the not-found error, whose message quotes the expression.
\<close>

theorem resolve_refish_not_found:
  assumes "fast_path_fails L repo str repo1"
      and "git_revparse_single L repo1 str = (Inl e, repo2)"
  shows "resolve_refish L (STRSXP (CHARSXP str # xs)) repo =
           (Inl (Rf_error (''Failed to find git reference '' @ [CHR 0x27] @ str @ [CHR 0x27])),
            repo2)"
  using assms by (simp add: resolve_refish_by_revparse [where ?r1.0 = repo1])

theorem resolve_refish_not_found_witness:
  "resolve_refish (spec_libgit2 8) (STRSXP [CHARSXP ''nosuch'']) example_repo =
     (Inl (Rf_error (''Failed to find git reference '' @ [CHR 0x27] @ ''nosuch'' @ [CHR 0x27])),
      example_repo)"
proof -
  have a: "fast_path_fails (spec_libgit2 8) example_repo ''nosuch'' example_repo"
    by code_simp
  have b: "git_revparse_single (spec_libgit2 8) example_repo ''nosuch''
             = (Inl NotFound, example_repo)"
    by code_simp
  from resolve_refish_not_found [OF a b, of "[]"] show ?thesis
    by simp
qed

text \<open>
  C5. The claim that \<^verbatim>\<open><commit-prefix>^{tree}\<close> resolves to the commit's root tree fails:
  in the example repository \<^verbatim>\<open>abc1234\<close> names one commit, the revision parse of
  \<^verbatim>\<open>abc1234^{tree}\<close> gives its root tree, and \<open>resolve_refish\<close> does not return that tree
  but raises an error.
\<close>

theorem resolve_refish_tree_suffix_counterexample:
  "lookup_prefix example_repo ''abc1234'' = Inr (Object ''abc1234f'' (Commit_data ''7e22cc'' [''c1c1bb'']))
   \<and> revparse 8 example_repo ''abc1234^{tree}'' = Inr (Object ''7e22cc'' Tree_data)
   \<and> fst (resolve_refish (spec_libgit2 8) (STRSXP [CHARSXP ''abc1234^{tree}'']) example_repo)
       \<noteq> Inr (Object ''7e22cc'' Tree_data)
   \<and> fst (resolve_refish (spec_libgit2 8) (STRSXP [CHARSXP ''abc1234^{tree}'']) example_repo)
       = Inl (Rf_error ''Reference is a tree and does not point to a commit: abc1234^{tree}'')"
  by code_simp

text \<open>
  C5, as amended. When the name attempt fails and the revision parse of the expression
  yields a tree, which does not peel to a commit, \<open>resolve_refish\<close> returns no object and
  raises the error \<^verbatim>\<open>Reference is a tree and does not point to a commit\<close> with the
  expression: a peel-to-kind suffix does not override the expectation of a commit.
\<close>

theorem resolve_refish_tree_suffix:
  assumes "fast_path_fails L repo str repo1"
      and "git_revparse_single L repo1 str = (Inr tree, repo2)"
      and "git_object_type tree = GIT_OBJECT_TREE"
      and "git_object_peel L repo2 tree GIT_OBJECT_COMMIT = (Inl e, repo3)"
  shows "resolve_refish L (STRSXP (CHARSXP str # xs)) repo =
           (Inl (Rf_error (''Reference is a tree and does not point to a commit: '' @ str)), repo3)"
  using assms by (simp add: resolve_refish_by_revparse [where ?r1.0 = repo1])

theorem resolve_refish_tree_suffix_witness:
  "resolve_refish (spec_libgit2 8) (STRSXP [CHARSXP ''abc1234^{tree}'']) example_repo =
     (Inl (Rf_error ''Reference is a tree and does not point to a commit: abc1234^{tree}''),
      example_repo)"
proof -
  have a: "fast_path_fails (spec_libgit2 8) example_repo ''abc1234^{tree}'' example_repo"
    by code_simp
  have b: "git_revparse_single (spec_libgit2 8) example_repo ''abc1234^{tree}''
             = (Inr (Object ''7e22cc'' Tree_data), example_repo)"
    by code_simp
  have c: "git_object_type (Object ''7e22cc'' Tree_data) = GIT_OBJECT_TREE"
    by code_simp
  have d: "git_object_peel (spec_libgit2 8) example_repo (Object ''7e22cc'' Tree_data)
             GIT_OBJECT_COMMIT = (Inl (PeelError GIT_OBJECT_TREE GIT_OBJECT_COMMIT), example_repo)"
    by code_simp
  from resolve_refish_tree_suffix [OF a b c d, of "[]"] show ?thesis
    by simp
qed

text \<open>
  C6. Peeling is idempotent on an object that already has the requested kind: when
  \<open>peel\<close> takes an object to a commit, peeling that commit to a commit again gives the
  same result. Stated for the Peeling Engine of the specification, at every depth bound and
  in every repository.
\<close>

theorem peel_idempotent:
  assumes "peel depth repo obj GIT_OBJECT_COMMIT = Inr c"
  shows "peel depth repo c GIT_OBJECT_COMMIT = peel depth repo obj GIT_OBJECT_COMMIT"
proof -
  from assms have "git_object_type c = GIT_OBJECT_COMMIT"
    by (rule peel_kind) simp
  then have "peel depth repo c GIT_OBJECT_COMMIT = Inr c"
    by (rule peel_same_kind)
  with assms show ?thesis
    by simp
qed

theorem peel_idempotent_witness:
  "peel 8 example_repo (Object ''7a9002'' (Tag_data ''7a9001'')) GIT_OBJECT_COMMIT
     = Inr (Object ''c1c1bb'' (Commit_data ''7e11bb'' [''c0c0aa'']))
   \<and> peel 8 example_repo (Object ''c1c1bb'' (Commit_data ''7e11bb'' [''c0c0aa''])) GIT_OBJECT_COMMIT
     = Inr (Object ''c1c1bb'' (Commit_data ''7e11bb'' [''c0c0aa'']))"
proof -
  have h: "peel 8 example_repo (Object ''7a9002'' (Tag_data ''7a9001'')) GIT_OBJECT_COMMIT
     = Inr (Object ''c1c1bb'' (Commit_data ''7e11bb'' [''c0c0aa'']))"
    by code_simp
  from peel_idempotent [OF h] h show ?thesis
    by simp
qed

text \<open>
  C7. The claim that the empty expression fails with a parse error, as opposed to any
  other kind of error, fails: with a parser that rejects the empty string as
  \<open>ParseError\<close>, \<open>resolve_refish\<close> raises the same not-found error for the empty
  expression as for a well-formed name that matches nothing.
\<close>

theorem resolve_refish_empty_counterexample:
  "parse [] = Inl ParseError
   \<and> git_revparse_single (spec_libgit2 8) example_repo [] = (Inl ParseError, example_repo)
   \<and> git_revparse_single (spec_libgit2 8) example_repo ''nosuch'' = (Inl NotFound, example_repo)
   \<and> fst (resolve_refish (spec_libgit2 8) (STRSXP [CHARSXP []]) example_repo)
       = Inl (Rf_error (''Failed to find git reference '' @ [CHR 0x27] @ [] @ [CHR 0x27]))
   \<and> fst (resolve_refish (spec_libgit2 8) (STRSXP [CHARSXP ''nosuch'']) example_repo)
       = Inl (Rf_error (''Failed to find git reference '' @ [CHR 0x27] @ ''nosuch'' @ [CHR 0x27]))"
  by code_simp

text \<open>
  C7, as amended. For the empty expression, when the name attempt fails and the revision
  parse fails, with whatever error, \<open>resolve_refish\<close> returns no object and raises the
  not-found error with the empty expression between the quotes.
\<close>

theorem resolve_refish_empty:
  assumes "fast_path_fails L repo [] repo1"
      and "git_revparse_single L repo1 [] = (Inl e, repo2)"
  shows "resolve_refish L (STRSXP (CHARSXP [] # xs)) repo =
           (Inl (Rf_error (''Failed to find git reference '' @ [CHR 0x27, CHR 0x27])), repo2)"
  using assms by (simp add: resolve_refish_by_revparse [where ?r1.0 = repo1])

theorem resolve_refish_empty_witness:
  "resolve_refish (spec_libgit2 8) (STRSXP [CHARSXP []]) example_repo =
     (Inl (Rf_error (''Failed to find git reference '' @ [CHR 0x27, CHR 0x27])), example_repo)"
proof -
  have a: "fast_path_fails (spec_libgit2 8) example_repo [] example_repo"
    by code_simp
  have b: "git_revparse_single (spec_libgit2 8) example_repo [] = (Inl ParseError, example_repo)"
    by code_simp
  from resolve_refish_empty [OF a b, of "[]"] show ?thesis
    by simp
qed

text \<open>
  C8. An object that \<open>resolve_refish\<close> returns is a commit. Every return comes from one
  of three paths: the reference found by name was peeled to a commit; or the name attempt
  failed and the object found by the revision parse has kind commit; or that object was
  peeled to a commit. The library's contract that a successful peel to a commit gives a
  commit is a hypothesis.
\<close>

theorem resolve_refish_returns_commit:
  assumes ref_peel: "\<And>r ref c r'. git_reference_peel L r ref GIT_OBJECT_COMMIT = (Inr c, r')
                       \<Longrightarrow> git_object_type c = GIT_OBJECT_COMMIT"
      and obj_peel: "\<And>r found c r'. git_object_peel L r found GIT_OBJECT_COMMIT = (Inr c, r')
                       \<Longrightarrow> git_object_type c = GIT_OBJECT_COMMIT"
      and ok: "resolve_refish L string repo = (Inr obj, repo')"
  shows "git_object_type obj = GIT_OBJECT_COMMIT \<and>
         (\<exists>elt. STRING_ELT string 0 = Some elt \<and>
           ((\<exists>ref r1. git_reference_dwim L repo (R_CHAR elt) = (Inr ref, r1) \<and>
                git_reference_peel L r1 ref GIT_OBJECT_COMMIT = (Inr obj, repo'))
            \<or> (\<exists>r1. fast_path_fails L repo (R_CHAR elt) r1 \<and>
                  (git_revparse_single L r1 (R_CHAR elt) = (Inr obj, repo') \<and>
                     git_object_type obj = GIT_OBJECT_COMMIT
                   \<or> (\<exists>found r2. git_revparse_single L r1 (R_CHAR elt) = (Inr found, r2) \<and>
                         git_object_type found \<noteq> GIT_OBJECT_COMMIT \<and>
                         git_object_peel L r2 found GIT_OBJECT_COMMIT = (Inr obj, repo'))))))"
proof
  note paths = resolve_refish_success_paths [OF ok]
  from paths show "git_object_type obj = GIT_OBJECT_COMMIT"
    using ref_peel obj_peel by blast
  from paths show "\<exists>elt. STRING_ELT string 0 = Some elt \<and>
           ((\<exists>ref r1. git_reference_dwim L repo (R_CHAR elt) = (Inr ref, r1) \<and>
                git_reference_peel L r1 ref GIT_OBJECT_COMMIT = (Inr obj, repo'))
            \<or> (\<exists>r1. fast_path_fails L repo (R_CHAR elt) r1 \<and>
                  (git_revparse_single L r1 (R_CHAR elt) = (Inr obj, repo') \<and>
                     git_object_type obj = GIT_OBJECT_COMMIT
                   \<or> (\<exists>found r2. git_revparse_single L r1 (R_CHAR elt) = (Inr found, r2) \<and>
                         git_object_type found \<noteq> GIT_OBJECT_COMMIT \<and>
                         git_object_peel L r2 found GIT_OBJECT_COMMIT = (Inr obj, repo')))))" .
qed

theorem resolve_refish_returns_commit_witness:
  "resolve_refish (spec_libgit2 8) (STRSXP [CHARSXP ''v1'']) example_repo
     = (Inr (Object ''c1c1bb'' (Commit_data ''7e11bb'' [''c0c0aa''])), example_repo)
   \<and> git_object_type (Object ''c1c1bb'' (Commit_data ''7e11bb'' [''c0c0aa''])) = GIT_OBJECT_COMMIT"
proof -
  have a: "\<And>r ref c r'. git_reference_peel (spec_libgit2 8) r ref GIT_OBJECT_COMMIT = (Inr c, r')
             \<Longrightarrow> git_object_type c = GIT_OBJECT_COMMIT"
    by (simp add: spec_libgit2_def reference_peel_kind)
  have b: "\<And>r found c r'. git_object_peel (spec_libgit2 8) r found GIT_OBJECT_COMMIT = (Inr c, r')
             \<Longrightarrow> git_object_type c = GIT_OBJECT_COMMIT"
    by (simp add: spec_libgit2_def peel_kind)
  have c: "resolve_refish (spec_libgit2 8) (STRSXP [CHARSXP ''v1'']) example_repo
     = (Inr (Object ''c1c1bb'' (Commit_data ''7e11bb'' [''c0c0aa''])), example_repo)"
    by code_simp
  from resolve_refish_returns_commit [OF a b c] c show ?thesis
    by simp
qed

text \<open>
  C9. A commit that \<open>ref_to_commit\<close> returns is the one the library looks up under the
  identifier of the object \<open>resolve_refish\<close> returned, and has that identifier;
  \<open>ref_to_commit\<close> fails exactly when \<open>resolve_refish\<close> fails or that lookup fails. The
  library's contract that a commit looked up by an identifier has that identifier is a
  hypothesis.
\<close>

theorem ref_to_commit_same_id:
  assumes lookup_id: "\<And>r oid c r'. git_commit_lookup L r oid = (Inr c, r') \<Longrightarrow> git_commit_id c = oid"
  shows "(\<forall>c repo'. ref_to_commit L ref repo = (Inr c, repo') \<longrightarrow>
            (\<exists>obj repo1. resolve_refish L ref repo = (Inr obj, repo1) \<and>
               git_commit_lookup L repo1 (git_object_id obj) = (Inr c, repo') \<and>
               git_commit_id c = git_object_id obj))
         \<and> (isl (fst (ref_to_commit L ref repo)) \<longleftrightarrow>
              isl (fst (resolve_refish L ref repo)) \<or>
              (\<exists>obj repo1. resolve_refish L ref repo = (Inr obj, repo1) \<and>
                 isl (fst (git_commit_lookup L repo1 (git_object_id obj)))))"
proof -
  obtain a repo1 where rr: "resolve_refish L ref repo = (a, repo1)"
    by (cases "resolve_refish L ref repo")
  show ?thesis
  proof (cases a)
    case (Inl cond)
    with rr show ?thesis
      by (simp add: ref_to_commit_def)
  next
    case (Inr obj)
    obtain b repo2 where cl: "git_commit_lookup L repo1 (git_object_id obj) = (b, repo2)"
      by (cases "git_commit_lookup L repo1 (git_object_id obj)")
    show ?thesis
    proof (cases b)
      case (Inl e)
      with Inr rr cl show ?thesis
        by (simp add: ref_to_commit_def)
    next
      case c: (Inr c)
      with cl have "git_commit_id c = git_object_id obj"
        by (simp add: lookup_id)
      with c Inr rr cl show ?thesis
        by (simp add: ref_to_commit_def)
    qed
  qed
qed

theorem ref_to_commit_same_id_witness:
  "ref_to_commit (spec_libgit2 8) (STRSXP [CHARSXP ''HEAD'']) example_repo
     = (Inr (Commit ''abc1234f'' ''7e22cc'' [''c1c1bb'']), example_repo)
   \<and> resolve_refish (spec_libgit2 8) (STRSXP [CHARSXP ''HEAD'']) example_repo
     = (Inr (Object ''abc1234f'' (Commit_data ''7e22cc'' [''c1c1bb''])), example_repo)
   \<and> \<not> isl (fst (ref_to_commit (spec_libgit2 8) (STRSXP [CHARSXP ''HEAD'']) example_repo))
   \<and> isl (fst (ref_to_commit (spec_libgit2 8) (STRSXP [CHARSXP ''nosuch'']) example_repo))"
proof -
  have a: "\<And>r oid c r'. git_commit_lookup (spec_libgit2 8) r oid = (Inr c, r')
             \<Longrightarrow> git_commit_id c = oid"
    by (auto simp: spec_libgit2_def commit_lookup_def split: option.splits odb_object.splits)
  have b: "ref_to_commit (spec_libgit2 8) (STRSXP [CHARSXP ''HEAD'']) example_repo
     = (Inr (Commit ''abc1234f'' ''7e22cc'' [''c1c1bb'']), example_repo)"
    by code_simp
  have c: "resolve_refish (spec_libgit2 8) (STRSXP [CHARSXP ''nosuch'']) example_repo
     = (Inl (Rf_error (''Failed to find git reference '' @ [CHR 0x27] @ ''nosuch'' @ [CHR 0x27])),
        example_repo)"
    by code_simp
  have d: "resolve_refish (spec_libgit2 8) (STRSXP [CHARSXP ''HEAD'']) example_repo
     = (Inr (Object ''abc1234f'' (Commit_data ''7e22cc'' [''c1c1bb''])), example_repo)"
    by code_simp
  from ref_to_commit_same_id
         [where L = "spec_libgit2 8" and ref = "STRSXP [CHARSXP ''nosuch'']"
            and repo = example_repo, OF a] c
  have "isl (fst (ref_to_commit (spec_libgit2 8) (STRSXP [CHARSXP ''nosuch'']) example_repo))"
    by simp
  with b d show ?thesis
    by simp
qed

text \<open>
  C10. \<open>resolve_refish\<close> reads only the first element of a character vector: two
  non-empty character vectors with the same first string have the same outcome in the same
  repository. An input that is not a character vector, or is empty, raises an error and
  leaves the repository as it was, for every library whatsoever, also one that would change
  the repository at each call: no library call is made.
\<close>

theorem resolve_refish_first_element:
  "(xs \<noteq> [] \<and> ys \<noteq> [] \<and> R_CHAR (hd xs) = R_CHAR (hd ys) \<longrightarrow>
      resolve_refish L (STRSXP xs) repo = resolve_refish L (STRSXP ys) repo)
   \<and> (\<not> Rf_isString s \<or> Rf_length s = 0 \<longrightarrow>
        resolve_refish L s repo = (Inl (Rf_error ''Reference is not a string''), repo))"
proof (intro conjI impI)
  assume "xs \<noteq> [] \<and> ys \<noteq> [] \<and> R_CHAR (hd xs) = R_CHAR (hd ys)"
  then obtain x xs' y ys' where "xs = x # xs'" "ys = y # ys'" "R_CHAR x = R_CHAR y"
    by (cases xs; cases ys) auto
  then show "resolve_refish L (STRSXP xs) repo = resolve_refish L (STRSXP ys) repo"
    by (simp add: resolve_refish_def)
next
  assume "\<not> Rf_isString s \<or> Rf_length s = 0"
  then show "resolve_refish L s repo = (Inl (Rf_error ''Reference is not a string''), repo)"
    by (rule resolve_refish_guard)
qed

theorem resolve_refish_first_element_witness:
  "resolve_refish (spec_libgit2 8) (STRSXP [CHARSXP ''main'', CHARSXP ''nosuch'']) example_repo
     = resolve_refish (spec_libgit2 8) (STRSXP [CHARSXP ''main'']) example_repo
   \<and> resolve_refish (spec_libgit2 8) (STRSXP [CHARSXP ''main'']) example_repo
     = (Inr (Object ''abc1234f'' (Commit_data ''7e22cc'' [''c1c1bb''])), example_repo)
   \<and> resolve_refish (spec_libgit2 8) (STRSXP []) example_repo
     = (Inl (Rf_error ''Reference is not a string''), example_repo)
   \<and> resolve_refish (spec_libgit2 8) (INTSXP [1]) example_repo
     = (Inl (Rf_error ''Reference is not a string''), example_repo)"
proof -
  have main: "resolve_refish (spec_libgit2 8) (STRSXP [CHARSXP ''main'']) example_repo
     = (Inr (Object ''abc1234f'' (Commit_data ''7e22cc'' [''c1c1bb''])), example_repo)"
    by code_simp
  from resolve_refish_first_element
         [of "[CHARSXP ''main'', CHARSXP ''nosuch'']" "[CHARSXP ''main'']"
             "spec_libgit2 8" example_repo "STRSXP []"]
       resolve_refish_first_element
         [of "[CHARSXP ''main'']" "[CHARSXP ''main'']" "spec_libgit2 8" example_repo "INTSXP [1]"]
       main
  show ?thesis
    by simp
qed

end
